theory Spec2Isabelle
  imports Complex_Main
begin

section \<open>The star trail of \<open>script.js\<close>\<close>

text \<open>
  \<open>script.js\<close> keeps three pieces of module-level state: the flag \<open>isHovering\<close>, the
  object \<open>last\<close> and the child list of the element \<open>banner\<close>. Every handler runs to
  completion on the event loop, so a handler is a function from the state before it to the
  state after it, together with the exception it raised, if any.

  A JavaScript number is a double. A coordinate is modelled by the \<open>real\<close> that the
  double denotes, and every arithmetic operation of the script on coordinates and random
  numbers rounds its exact result to the nearest double (function \<open>dbl\<close> below).
  Timestamps are the integers that \<open>new Date().getTime()\<close> returns, of magnitude at most
  8.64e15, and are modelled by \<open>int\<close>: their difference is rounded only beyond 2^53,
  and rounding never moves a value across the threshold 200. Position objects are never
  mutated after their creation, so sharing one object between two fields is not
  observable and positions are plain values.

  The script tag of lines 1 to 6 and the variable \<open>count\<close> of line 37, which is never
  read or written again, have no counterpart here.
\<close>

subsection \<open>Data\<close>

text \<open>A position object \<open>{ x: ..., y: ... }\<close>.\<close>

record position =
  pos_x :: real
  pos_y :: real

text \<open>The object \<open>last\<close> (lines 24 to 28).\<close>

record throttle =
  starTimestamp :: int
  starPosition :: position
  mousePosition :: position

text \<open>The object \<open>config\<close> (lines 30 to 35).\<close>

record config_t =
  minimumTimeBetweenStars :: int
  minimumDistanceBetweenStars :: real
  colors :: "string list"
  sizes :: "string list"

text \<open>
  What a handler reads off a mouse event or a touch point: \<open>clientX\<close> and \<open>clientY\<close>.
  A touch event carries the list \<open>touches\<close>.
\<close>

record pointer =
  clientX :: real
  clientY :: real

record touch_event =
  touches :: "pointer list"

text \<open>
  A length written by \<open>withUnit\<close>: the number and its unit. The decimal text of the
  number is not modelled.
\<close>

type_synonym css_length = "real \<times> string"

text \<open>
  The \<open>span\<close> built by \<open>createStar\<close>. \<open>node\<close> is the identity of the DOM node: two
  stars with equal styles are still two nodes. A style that was assigned \<open>undefined\<close> is
  \<open>None\<close>.
\<close>

record star =
  node :: nat
  className :: string
  style_left :: css_length
  style_top :: css_length
  style_fontSize :: "string option"
  style_color :: string
  style_textShadow :: string

text \<open>A pending \<open>setTimeout(() => banner.removeChild(element), delay)\<close>.\<close>

record timer =
  timer_element :: star
  timer_delay :: int

text \<open>
  The state of the page: the flag, the object \<open>last\<close> (field \<open>last_state\<close>), the stars
  that are children of \<open>banner\<close> in document order, the timers not yet fired, and the
  identity of the next node that \<open>document.createElement\<close> returns.
\<close>

record world =
  isHovering :: bool
  last_state :: throttle
  children :: "star list"
  timers :: "timer list"
  nextNode :: nat

text \<open>
  What the host answers during one run of \<open>handleOnMove\<close>, in the order of the calls:
  \<open>clock1\<close> is \<open>new Date().getTime()\<close> at line 97, \<open>clock2\<close> the one at line 78
  inside \<open>updateLastStar\<close>; \<open>random1\<close> is \<open>Math.random()\<close> for the colour (line 61)
  and \<open>random2\<close> the one for the size (line 68).
\<close>

record env =
  clock1 :: int
  clock2 :: int
  random1 :: real
  random2 :: real

datatype error = TypeError | NotFoundError

subsection \<open>Double-precision arithmetic\<close>

text \<open>
  The exponent of the binade of a nonnegative \<open>a\<close>: the largest \<open>e\<close> from 1023 down to
  -1021 with \<open>2 ^ e \<le> a\<close>, and -1022 (the exponent of the subnormal numbers) when there
  is none.
\<close>

fun expo_from :: "nat \<Rightarrow> int \<Rightarrow> real \<Rightarrow> int" where
  "expo_from 0 e a = e"
| "expo_from (Suc n) e a = (if 2 powi e \<le> a then e else expo_from n (e - 1) a)"

definition expo :: "real \<Rightarrow> int" where
  "expo x = expo_from 2045 1023 \<bar>x\<bar>"

text \<open>Rounding to the nearest integer, a tie going to the even one.\<close>

definition round_even :: "real \<Rightarrow> int" where
  "round_even y =
     (let q = \<lfloor>y\<rfloor>; f = y - of_int q
      in if f < 1 / 2 then q else if 1 / 2 < f then q + 1 else if even q then q else q + 1)"

text \<open>
  The double nearest to \<open>x\<close> (IEEE 754 binary64, round to nearest, ties to even): a
  multiple of \<open>2 ^ (expo x - 52)\<close> with a significand of 53 bits. A result beyond the
  largest double, which the machine turns into \<open>Infinity\<close>, stays a finite real here; no
  comparison with 100 depends on it. \<open>NaN\<close> and the sign of zero are not modelled.
\<close>

definition dbl :: "real \<Rightarrow> real" where
  "dbl x = (let u = 2 powi (expo x - 52) in of_int (round_even (x / u)) * u)"

text \<open>
  \<open>Math.floor\<close> is exact. \<open>Math.sqrt\<close> is the correctly rounded square root; the script
  calls it on a sum of squares, which is never negative. \<open>Math.pow\<close> is called with the
  exponent 2 only. ECMAScript leaves the precision of \<open>Math.pow\<close> to the engine; the
  model takes the correctly rounded square, which is what \<open>x * x\<close> gives and what an
  engine that multiplies for the exponent 2 returns.
\<close>

definition Math_floor :: "real \<Rightarrow> real" where
  "Math_floor x = of_int \<lfloor>x\<rfloor>"

definition Math_sqrt :: "real \<Rightarrow> real" where
  "Math_sqrt x = dbl (sqrt x)"

definition Math_pow :: "real \<Rightarrow> nat \<Rightarrow> real" where
  "Math_pow x n = dbl (x ^ n)"

subsection \<open>Constants\<close>

definition originPosition :: position where
  "originPosition = \<lparr>pos_x = 0, pos_y = 0\<rparr>"

definition config :: config_t where
  "config = \<lparr>minimumTimeBetweenStars = 200,
              minimumDistanceBetweenStars = 100,
              colors = [''159, 81, 178'', ''59, 54, 178'', ''231, 233, 235''],
              sizes = [''1.4rem'', ''1rem'', ''0.6rem'']\<rparr>"

text \<open>
  The state after the script has loaded at time \<open>start\<close> (lines 8 and 20 to 28).
\<close>

definition init :: "int \<Rightarrow> world" where
  "init start =
     \<lparr>isHovering = False,
      last_state = \<lparr>starTimestamp = start, starPosition = originPosition,
                    mousePosition = originPosition\<rparr>,
      children = [], timers = [], nextNode = 0\<rparr>"

subsection \<open>Helpers (lines 39 to 57)\<close>

text \<open>
  \<open>rand\<close> takes the value \<open>r\<close> that \<open>Math.random()\<close> returned. The product, the sums
  and the difference are rounded as the machine rounds them.
\<close>

definition rand :: "real \<Rightarrow> real \<Rightarrow> real \<Rightarrow> real" where
  "rand mn mx r = dbl (Math_floor (dbl (r * dbl (dbl (mx - mn) + 1))) + mn)"

text \<open>
  An array read at anything but an index of the array is \<open>undefined\<close>: \<open>None\<close>.
\<close>

definition selectRandom :: "'a list \<Rightarrow> real \<Rightarrow> 'a option" where
  "selectRandom items r =
     (let i = rand 0 (dbl (real (length items) - 1)) r
      in if of_int \<lfloor>i\<rfloor> = i \<and> 0 \<le> i \<and> i < real (length items)
         then Some (items ! nat \<lfloor>i\<rfloor>) else None)"

definition withUnit :: "real \<Rightarrow> string \<Rightarrow> css_length" where
  "withUnit v unit = (v, unit)"

definition px :: "real \<Rightarrow> css_length" where
  "px v = withUnit v ''px''"

definition ms :: "real \<Rightarrow> css_length" where
  "ms v = withUnit v ''ms''"

text \<open>A value inside a template literal.\<close>

definition template :: "string option \<Rightarrow> string" where
  "template v = (case v of None \<Rightarrow> ''undefined'' | Some s \<Rightarrow> s)"

definition calcDistance :: "position \<Rightarrow> position \<Rightarrow> real" where
  "calcDistance a b =
     (let diffX = dbl (pos_x b - pos_x a);
          diffY = dbl (pos_y b - pos_y a)
      in Math_sqrt (dbl (Math_pow diffX 2 + Math_pow diffY 2)))"

definition calcElapsedTime :: "int \<Rightarrow> int \<Rightarrow> int" where
  "calcElapsedTime start finish = finish - start"

text \<open>
  \<open>banner.appendChild\<close> of a node without a parent makes it the last child.
  \<open>createStar\<close> is the only caller and passes the node it has just created.
\<close>

definition appendElement :: "star \<Rightarrow> world \<Rightarrow> world" where
  "appendElement element w = w\<lparr>children := children w @ [element]\<rparr>"

text \<open>\<open>removeElement\<close> only registers the timer.\<close>

definition removeElement :: "star \<Rightarrow> int \<Rightarrow> world \<Rightarrow> world" where
  "removeElement element delay w =
     w\<lparr>timers := timers w @ [\<lparr>timer_element = element, timer_delay = delay\<rparr>]\<rparr>"

text \<open>
  \<open>banner.removeChild(element)\<close>: the DOM removes a child of \<open>banner\<close> and throws a
  \<open>NotFoundError\<close> for a node whose parent is not \<open>banner\<close>.
\<close>

definition removeChild :: "star \<Rightarrow> world \<Rightarrow> error option \<times> world" where
  "removeChild element w =
     (if element \<in> set (children w)
      then (None, w\<lparr>children := remove1 element (children w)\<rparr>)
      else (Some NotFoundError, w))"

text \<open>The timer \<open>t\<close> fires: it leaves the pending timers and its callback runs.\<close>

definition fire :: "timer \<Rightarrow> world \<Rightarrow> error option \<times> world" where
  "fire t w = removeChild (timer_element t) (w\<lparr>timers := remove1 t (timers w)\<rparr>)"

subsection \<open>Stars and the throttle state (lines 59 to 89)\<close>

definition createStar :: "env \<Rightarrow> position \<Rightarrow> world \<Rightarrow> world" where
  "createStar h position w =
     (let color = selectRandom (colors config) (random1 h);
          star = \<lparr>node = nextNode w,
                  className = ''fa-solid fa-star star'',
                  style_left = px (pos_x position),
                  style_top = px (pos_y position),
                  style_fontSize = selectRandom (sizes config) (random2 h),
                  style_color = ''rgb('' @ template color @ '')'',
                  style_textShadow =
                    ''0px 0px 1.5rem rgb('' @ template color @ '' / 0.5)''\<rparr>
      in removeElement star 3000
           (appendElement star (w\<lparr>nextNode := Suc (nextNode w)\<rparr>)))"

definition updateLastStar :: "env \<Rightarrow> position \<Rightarrow> world \<Rightarrow> world" where
  "updateLastStar h position w =
     w\<lparr>last_state := (last_state w)\<lparr>starTimestamp := clock2 h,
                                     starPosition := position\<rparr>\<rparr>"

definition updateLastMousePosition :: "position \<Rightarrow> world \<Rightarrow> world" where
  "updateLastMousePosition position w =
     w\<lparr>last_state := (last_state w)\<lparr>mousePosition := position\<rparr>\<rparr>"

definition adjustLastMousePosition :: "position \<Rightarrow> world \<Rightarrow> world" where
  "adjustLastMousePosition position w =
     (if pos_x (mousePosition (last_state w)) = 0 \<and> pos_y (mousePosition (last_state w)) = 0
      then w\<lparr>last_state := (last_state w)\<lparr>mousePosition := position\<rparr>\<rparr>
      else w)"

subsection \<open>Handlers (lines 12 to 18 and 91 to 116)\<close>

definition banner_mouseenter :: "world \<Rightarrow> world" where
  "banner_mouseenter w = w\<lparr>isHovering := True\<rparr>"

definition banner_mouseleave :: "world \<Rightarrow> world" where
  "banner_mouseleave w = w\<lparr>isHovering := False\<rparr>"

text \<open>
  The argument of \<open>handleOnMove\<close> is an object with \<open>clientX\<close> and \<open>clientY\<close>, or
  \<open>undefined\<close> (\<open>None\<close>). Reading \<open>e.clientX\<close> of \<open>undefined\<close> throws a \<open>TypeError\<close>;
  this is the first statement of the guarded block, so nothing has been written yet.
\<close>

definition handleOnMove :: "env \<Rightarrow> pointer option \<Rightarrow> world \<Rightarrow> error option \<times> world" where
  "handleOnMove h e w =
     (if isHovering w then
        (case e of
           None \<Rightarrow> (Some TypeError, w)
         | Some ev \<Rightarrow>
             (let mousePos = \<lparr>pos_x = clientX ev, pos_y = clientY ev\<rparr>;
                  w1 = adjustLastMousePosition mousePos w;
                  now = clock1 h;
                  hasMovedFarEnough =
                    (calcDistance (starPosition (last_state w1)) mousePos
                       \<ge> minimumDistanceBetweenStars config);
                  hasBeenLongEnough =
                    (calcElapsedTime (starTimestamp (last_state w1)) now
                       > minimumTimeBetweenStars config);
                  w2 = (if hasMovedFarEnough \<or> hasBeenLongEnough
                        then updateLastStar h mousePos (createStar h mousePos w1)
                        else w1)
              in (None, updateLastMousePosition mousePos w2)))
      else (None, w))"

definition window_onmousemove :: "env \<Rightarrow> pointer \<Rightarrow> world \<Rightarrow> error option \<times> world" where
  "window_onmousemove h e w = handleOnMove h (Some e) w"

text \<open>\<open>e.touches[0]\<close> of an empty list is \<open>undefined\<close>.\<close>

definition window_ontouchmove :: "env \<Rightarrow> touch_event \<Rightarrow> world \<Rightarrow> error option \<times> world" where
  "window_ontouchmove h e w =
     handleOnMove h (case touches e of [] \<Rightarrow> None | t # _ \<Rightarrow> Some t) w"

definition body_onmouseleave :: "world \<Rightarrow> world" where
  "body_onmouseleave w = updateLastMousePosition originPosition w"

subsection \<open>Notation for the statements\<close>

text \<open>The object literal of line 93.\<close>

abbreviation sample :: "pointer \<Rightarrow> position" where
  "sample e \<equiv> \<lparr>pos_x = clientX e, pos_y = clientY e\<rparr>"

text \<open>The page loaded at time 0, with the pointer inside the banner.\<close>

abbreviation hovering0 :: world where
  "hovering0 \<equiv> banner_mouseenter (init 0)"

text \<open>
  The same page one second later, after a first sample at (500, 500), which spawns a star
  because more than 200 ms have passed.
\<close>

abbreviation after_first_star :: world where
  "after_first_star \<equiv>
     snd (handleOnMove \<lparr>clock1 = 1000, clock2 = 1000, random1 = 0, random2 = 0\<rparr>
            (Some \<lparr>clientX = 500, clientY = 500\<rparr>) hovering0)"

section \<open>Rounding\<close>

text \<open>
  What the claims need of \<open>dbl\<close>: its value where the binade is known, exactness on
  integers below 2^53, and the reals that it rounds to at least 100.
\<close>

lemma expo_from_eq:
  "2 powi k \<le> a \<Longrightarrow> a < 2 powi (k + 1) \<Longrightarrow> k \<le> e \<Longrightarrow> nat (e - k) \<le> n \<Longrightarrow> expo_from n e a = k"
proof (induction n arbitrary: e)
  case 0
  then show ?case by simp
next
  case (Suc n)
  show ?case
  proof (cases "e = k")
    case True
    with Suc.prems show ?thesis by simp
  next
    case False
    with Suc.prems have lt: "k + 1 \<le> e" by simp
    have "(2::real) powi (k + 1) \<le> 2 powi e"
      by (rule power_int_increasing) (use lt in simp_all)
    with Suc.prems have "\<not> 2 powi e \<le> a" by linarith
    moreover have "expo_from n (e - 1) a = k"
      by (rule Suc.IH) (use Suc.prems lt in simp_all)
    ultimately show ?thesis by simp
  qed
qed

lemma expo_from_low:
  "a < 2 powi (e - int n + 1) \<Longrightarrow> expo_from n e a = e - int n"
proof (induction n arbitrary: e)
  case 0
  then show ?case by simp
next
  case (Suc n)
  have "(2::real) powi (e - int (Suc n) + 1) \<le> 2 powi e"
    by (rule power_int_increasing) simp_all
  with Suc.prems have "\<not> 2 powi e \<le> a" by linarith
  moreover have "expo_from n (e - 1) a = e - 1 - int n"
    by (rule Suc.IH) (use Suc.prems in \<open>simp add: algebra_simps\<close>)
  ultimately show ?case by simp
qed

lemma expo_eq:
  assumes "2 powi k \<le> \<bar>x\<bar>" "\<bar>x\<bar> < 2 powi (k + 1)" "- 1022 \<le> k" "k \<le> 1023"
  shows "expo x = k"
  unfolding expo_def by (rule expo_from_eq) (use assms in simp_all)

lemma expo_low:
  assumes "\<bar>x\<bar> < 2 powi (- 1021)"
  shows "expo x = - 1022"
  unfolding expo_def using expo_from_low [of "\<bar>x\<bar>" 1023 2045] assms by simp

lemma round_even_near:
  assumes "\<bar>y - of_int m\<bar> < 1 / 2"
  shows "round_even y = m"
proof (cases "of_int m \<le> y")
  case True
  with assms have "\<lfloor>y\<rfloor> = m" by (intro floor_unique) linarith+
  with assms True show ?thesis by (simp add: round_even_def Let_def)
next
  case False
  with assms have f: "\<lfloor>y\<rfloor> = m - 1" by (intro floor_unique) (simp, linarith+)
  with assms False show ?thesis by (simp add: round_even_def Let_def)
qed

lemma round_even_of_int [simp]: "round_even (of_int m) = m"
  by (rule round_even_near) simp

lemma round_even_tie:
  assumes "y = of_int q + 1 / 2"
  shows "round_even y = (if even q then q else q + 1)"
proof -
  from assms have "\<lfloor>y\<rfloor> = q" by (intro floor_unique) simp_all
  with assms show ?thesis by (simp add: round_even_def Let_def)
qed

lemma round_even_ge_floor: "\<lfloor>y\<rfloor> \<le> round_even y"
  by (simp add: round_even_def Let_def)

lemma round_even_le_ceil: "round_even y \<le> \<lceil>y\<rceil>"
proof (cases "y = of_int \<lfloor>y\<rfloor>")
  case True
  then have "round_even y = \<lfloor>y\<rfloor>" by (metis round_even_of_int)
  then show ?thesis by simp
next
  case False
  then have "\<lceil>y\<rceil> = \<lfloor>y\<rfloor> + 1" by (simp add: ceiling_altdef)
  then show ?thesis by (simp add: round_even_def Let_def)
qed

lemma dbl_eqI:
  assumes "2 powi k \<le> \<bar>x\<bar>" "\<bar>x\<bar> < 2 powi (k + 1)" "- 1022 \<le> k" "k \<le> 1023"
    and "round_even (x / 2 powi (k - 52)) = m"
  shows "dbl x = of_int m * 2 powi (k - 52)"
  using assms(5) by (simp add: dbl_def Let_def expo_eq [OF assms(1-4)])

lemma round_even_zero [simp]: "round_even 0 = 0"
  by (simp add: round_even_def)

lemma dbl_zero [simp]: "dbl 0 = 0"
  by (simp add: dbl_def Let_def)

lemma dbl_fixI:
  assumes "2 powi k \<le> \<bar>x\<bar>" "\<bar>x\<bar> < 2 powi (k + 1)" "- 1022 \<le> k" "k \<le> 1023"
    and "x / 2 powi (k - 52) = of_int m"
  shows "dbl x = x"
proof -
  have "round_even (x / 2 powi (k - 52)) = m" by (simp add: assms(5))
  from dbl_eqI [OF assms(1-4) this] have "dbl x = of_int m * 2 powi (k - 52)" .
  also have "\<dots> = x" using assms(5) by (simp add: field_simps)
  finally show ?thesis .
qed

lemma pow2_le_of_nat: "(2::nat) ^ j \<le> a \<Longrightarrow> 2 powi (int j) \<le> real a"
proof -
  assume "(2::nat) ^ j \<le> a"
  then have "real (2 ^ j) \<le> real a" by (simp only: of_nat_le_iff)
  then show ?thesis by simp
qed

lemma of_nat_less_pow2: "a < (2::nat) ^ (j + 1) \<Longrightarrow> real a < 2 powi (int j + 1)"
proof -
  assume "a < (2::nat) ^ (j + 1)"
  then have "real a < real (2 ^ (j + 1))" by (simp only: of_nat_less_iff)
  also have "real (2 ^ (j + 1)) = 2 powi (int (j + 1))"
    by (simp only: power_int_of_nat of_nat_power of_nat_numeral)
  also have "int (j + 1) = int j + 1" by simp
  finally show ?thesis .
qed

lemma pow2_below_52: "j < 53 \<Longrightarrow> (2::real) powi (int j - 52) = inverse (2 ^ (52 - j))"
proof -
  assume "j < 53"
  then have "int j - 52 = - int (52 - j)" by simp
  then show ?thesis by (simp only: power_int_minus power_int_of_nat)
qed

lemma int_over_ulp: "j < 53 \<Longrightarrow> real_of_int n / 2 powi (int j - 52) = of_int (n * 2 ^ (52 - j))"
  by (simp only: pow2_below_52 divide_inverse inverse_inverse_eq of_int_mult of_int_power of_int_numeral)

lemma dbl_of_int:
  assumes "\<bar>n\<bar> < 2 ^ 53"
  shows "dbl (of_int n) = of_int n"
proof (cases "n = 0")
  case True
  then show ?thesis by simp
next
  case False
  define a where "a = nat \<bar>n\<bar>"
  have a1: "1 \<le> a" using False by (simp add: a_def)
  have a53: "a < 2 ^ 53" using assms by (simp add: a_def nat_less_iff)
  from ex_power_ivl1 [of 2 a] a1 obtain j where j: "2 ^ j \<le> a" "a < 2 ^ (j + 1)" by auto
  from j(1) a53 have p: "(2::nat) ^ j < 2 ^ 53" by linarith
  have j53: "j < 53" by (rule power_less_imp_less_exp [of 2]) (simp, rule p)
  have abs: "\<bar>real_of_int n\<bar> = real a" by (simp add: a_def)
  have lo: "2 powi (int j) \<le> \<bar>real_of_int n\<bar>"
    unfolding abs by (rule pow2_le_of_nat) (rule j(1))
  have hi: "\<bar>real_of_int n\<bar> < 2 powi (int j + 1)"
    unfolding abs by (rule of_nat_less_pow2) (rule j(2))
  show ?thesis
    by (rule dbl_fixI [OF lo hi _ _ int_over_ulp [OF j53]]) (use j53 in simp_all)
qed

lemma dbl_numeral [simp]:
  "numeral k < (9007199254740992::int) \<Longrightarrow> dbl (numeral k) = numeral k"
  using dbl_of_int [of "numeral k"] by simp

lemma dbl_one [simp]: "dbl 1 = 1"
  using dbl_of_int [of 1] by simp

lemma pow2_less_cancel: "(2::real) powi e < 2 powi f \<Longrightarrow> e < f"
proof (rule ccontr)
  assume a: "(2::real) powi e < 2 powi f" and "\<not> e < f"
  then have "f \<le> e" by simp
  then have "(2::real) powi f \<le> 2 powi e" by (intro power_int_increasing) simp_all
  with a show False by linarith
qed

lemma expo_from_ge: "2 powi k \<le> a \<Longrightarrow> k \<le> e \<Longrightarrow> k \<le> expo_from n e a"
proof (induction n arbitrary: e)
  case 0
  then show ?case by simp
next
  case (Suc n)
  show ?case
  proof (cases "2 powi e \<le> a")
    case True
    with Suc.prems show ?thesis by simp
  next
    case False
    with Suc.prems have "k \<noteq> e" by auto
    with Suc.prems have "k \<le> e - 1" by simp
    from Suc.IH [OF Suc.prems(1) this] False show ?thesis by simp
  qed
qed

lemma expo_from_le: "a < 2 powi (k + 1) \<Longrightarrow> e - int n \<le> k \<Longrightarrow> expo_from n e a \<le> max k (e - int n)"
proof (induction n arbitrary: e)
  case 0
  then show ?case by simp
next
  case (Suc n)
  show ?case
  proof (cases "2 powi e \<le> a")
    case True
    with Suc.prems have "(2::real) powi e < 2 powi (k + 1)" by linarith
    then have "e < k + 1" by (rule pow2_less_cancel)
    with True show ?thesis by simp
  next
    case False
    have "expo_from n (e - 1) a \<le> max k (e - 1 - int n)"
      by (rule Suc.IH) (use Suc.prems in simp_all)
    with False show ?thesis by (simp add: algebra_simps)
  qed
qed

lemma expo_ge: "2 powi k \<le> \<bar>x\<bar> \<Longrightarrow> k \<le> 1023 \<Longrightarrow> k \<le> expo x"
  unfolding expo_def by (rule expo_from_ge)

lemma expo_le: "\<bar>x\<bar> < 2 powi (k + 1) \<Longrightarrow> - 1022 \<le> k \<Longrightarrow> expo x \<le> k"
  unfolding expo_def using expo_from_le [of "\<bar>x\<bar>" k 1023 2045] by simp

lemma expo_from_found: "expo_from n e a \<noteq> e - int n \<Longrightarrow> 2 powi (expo_from n e a) \<le> a"
  by (induction n arbitrary: e) (auto simp add: algebra_simps)

lemma expo_lower: "2 powi (- 1022) \<le> \<bar>x\<bar> \<Longrightarrow> 2 powi (expo x) \<le> \<bar>x\<bar>"
  unfolding expo_def using expo_from_found [of 2045 1023 "\<bar>x\<bar>"]
  by (cases "expo_from 2045 1023 \<bar>x\<bar> = - 1022") simp_all

lemma expo_range: "- 1022 \<le> expo x" "expo x \<le> 1023"
proof -
  have "\<And>n e a. e - int n \<le> expo_from n e a \<and> expo_from n e a \<le> e"
  proof -
    fix n e a show "e - int n \<le> expo_from n e a \<and> expo_from n e a \<le> e"
    proof (induction n arbitrary: e)
      case 0
      then show ?case by simp
    next
      case (Suc n)
      from Suc [of "e - 1"] show ?case by simp
    qed
  qed
  from this [of 1023 2045 "\<bar>x\<bar>"] show "- 1022 \<le> expo x" "expo x \<le> 1023"
    by (simp_all add: expo_def)
qed

text \<open>A value of at least a power of two is rounded to at least that power.\<close>

lemma dbl_ge_pow2:
  assumes "2 powi k \<le> x" "- 1022 \<le> k" "k \<le> 1023"
  shows "2 powi k \<le> dbl x"
proof -
  have "0 < (2::real) powi k" by simp
  with assms(1) have pos: "0 < x" by linarith
  then have ax: "\<bar>x\<bar> = x" by simp
  have ke: "k \<le> expo x" by (rule expo_ge) (use assms ax in simp_all)
  have "(2::real) powi (- 1022) \<le> 2 powi k" by (rule power_int_increasing) (use assms in simp_all)
  with assms(1) ax have "2 powi (- 1022) \<le> \<bar>x\<bar>" by linarith
  from expo_lower [OF this] ax have lo: "2 powi (expo x) \<le> x" by simp
  define u :: real where "u = 2 powi (expo x - 52)"
  have u: "0 < u" by (simp add: u_def)
  have "2 powi (expo x) / u = (2::real) powi 52"
    by (simp add: u_def power_int_diff)
  with lo u have "2 powi 52 \<le> x / u" by (metis divide_right_mono less_imp_le)
  then have "real_of_int (2 ^ 52) \<le> x / u" by simp
  then have "2 ^ 52 \<le> \<lfloor>x / u\<rfloor>" by (simp only: le_floor_iff)
  with round_even_ge_floor [of "x / u"] have "2 ^ 52 \<le> round_even (x / u)" by linarith
  then have "real_of_int (2 ^ 52) \<le> real_of_int (round_even (x / u))" by (simp only: of_int_le_iff)
  with u have r: "real_of_int (2 ^ 52) * u \<le> real_of_int (round_even (x / u)) * u"
    by (simp only: mult_le_cancel_right_pos)
  have "(2::real) powi k \<le> 2 powi (expo x)" by (rule power_int_increasing) (use ke in simp_all)
  also have "\<dots> = real_of_int (2 ^ 52) * u" by (simp add: u_def power_int_diff)
  also note r
  also have "real_of_int (round_even (x / u)) * u = dbl x" by (simp add: dbl_def Let_def u_def)
  finally show ?thesis .
qed

lemma dbl_le_pow2:
  assumes "0 \<le> x" "x < 2 powi (k + 1)" "- 1022 \<le> k"
  shows "dbl x \<le> 2 powi (k + 1)"
proof -
  have ax: "\<bar>x\<bar> = x" using assms(1) by simp
  have ek: "expo x \<le> k" by (rule expo_le) (use assms ax in simp_all)
  define u :: real where "u = 2 powi (expo x - 52)"
  define M :: int where "M = 2 ^ nat (k - expo x + 53)"
  have u: "0 < u" by (simp add: u_def)
  have Mu: "real_of_int M * u = 2 powi (k + 1)"
  proof -
    have nn: "0 \<le> k - expo x + 53" using ek by simp
    have "real_of_int M = 2 ^ nat (k - expo x + 53)"
      by (simp only: M_def of_int_power of_int_numeral)
    also have "\<dots> = 2 powi (k - expo x + 53)"
      by (rule power_int_nonneg_exp [OF nn, symmetric])
    finally have "real_of_int M * u = 2 powi (k - expo x + 53) * 2 powi (expo x - 52)"
      by (simp only: u_def)
    also have "\<dots> = 2 powi ((k - expo x + 53) + (expo x - 52))"
      by (rule power_int_add [symmetric]) simp
    also have "(k - expo x + 53) + (expo x - 52) = k + 1" by simp
    finally show ?thesis .
  qed
  have "x = (x / u) * u" using u by simp
  with assms(2) Mu have "(x / u) * u < real_of_int M * u" by simp
  with u have "x / u < real_of_int M" by (simp only: mult_less_cancel_right_pos)
  then have "\<lceil>x / u\<rceil> \<le> M" by (simp add: ceiling_le_iff)
  with round_even_le_ceil [of "x / u"] have "round_even (x / u) \<le> M" by linarith
  then have "real_of_int (round_even (x / u)) \<le> real_of_int M" by (simp only: of_int_le_iff)
  with u have "real_of_int (round_even (x / u)) * u \<le> real_of_int M * u"
    by (simp only: mult_le_cancel_right_pos)
  with Mu show ?thesis by (simp add: dbl_def Let_def u_def)
qed

lemma round_even_ge_iff:
  assumes "even N"
  shows "(N \<le> round_even y) = (of_int N - 1 / 2 \<le> y)"
proof
  assume le: "N \<le> round_even y"
  show "of_int N - 1 / 2 \<le> y"
  proof (rule ccontr)
    assume "\<not> of_int N - 1 / 2 \<le> y"
    then have lt: "y < of_int N - 1 / 2" by simp
    then have "y < of_int N" by linarith
    then have fl: "\<lfloor>y\<rfloor> \<le> N - 1" by (simp add: floor_less_iff)
    have "round_even y \<le> N - 1"
    proof (cases "\<lfloor>y\<rfloor> = N - 1")
      case True
      with lt have "y - of_int \<lfloor>y\<rfloor> < 1 / 2" by simp
      with True show ?thesis by (simp add: round_even_def Let_def)
    next
      case False
      with fl have "\<lfloor>y\<rfloor> + 1 \<le> N - 1" by simp
      moreover have "round_even y \<le> \<lfloor>y\<rfloor> + 1" by (simp add: round_even_def Let_def)
      ultimately show ?thesis by linarith
    qed
    with le show False by simp
  qed
next
  assume ge: "of_int N - 1 / 2 \<le> y"
  show "N \<le> round_even y"
  proof (cases "of_int N \<le> y")
    case True
    then have "N \<le> \<lfloor>y\<rfloor>" by (simp add: le_floor_iff)
    with round_even_ge_floor [of y] show ?thesis by linarith
  next
    case False
    with ge have fl: "\<lfloor>y\<rfloor> = N - 1" by (intro floor_unique) (simp, linarith+)
    then have odd: "odd \<lfloor>y\<rfloor>" using assms by simp
    from ge fl have "\<not> y - of_int \<lfloor>y\<rfloor> < 1 / 2" by simp
    with fl odd show ?thesis by (simp add: round_even_def Let_def)
  qed
qed

lemma dbl_binade6:
  assumes "64 \<le> x" "x < 128"
  shows "dbl x = of_int (round_even (x * 2 ^ 46)) / 2 ^ 46"
proof -
  have "expo x = 6" by (rule expo_eq) (use assms in simp_all)
  then show ?thesis by (simp add: dbl_def Let_def power_int_minus field_simps)
qed

lemma dbl_ge_100_iff:
  assumes "0 \<le> x"
  shows "(100 \<le> dbl x) = (100 - 1 / 2 ^ 47 \<le> x)"
proof -
  consider "x < 64" | "64 \<le> x" "x < 128" | "128 \<le> x" by linarith
  then show ?thesis
  proof cases
    case 1
    from dbl_le_pow2 [of x 5] assms 1 have "dbl x \<le> 64" by simp
    with 1 show ?thesis by simp
  next
    case 2
    have "(100 \<le> dbl x) = (real_of_int 7036874417766400 \<le> real_of_int (round_even (x * 2 ^ 46)))"
      by (simp add: dbl_binade6 [OF 2] field_simps)
    also have "\<dots> = (7036874417766400 \<le> round_even (x * 2 ^ 46))"
      by (simp only: of_int_le_iff)
    also have "\<dots> = (of_int 7036874417766400 - 1 / 2 \<le> x * 2 ^ 46)"
      by (rule round_even_ge_iff) simp
    also have "\<dots> = (100 - 1 / 2 ^ 47 \<le> x)"
      by (simp add: field_simps)
    finally show ?thesis .
  next
    case 3
    from dbl_ge_pow2 [of 7 x] 3 have "128 \<le> dbl x" by simp
    with 3 show ?thesis by simp
  qed
qed

lemma dbl_neg_numeral [simp]:
  "numeral k < (9007199254740992::int) \<Longrightarrow> dbl (- numeral k) = - numeral k"
  using dbl_of_int [of "- numeral k"] by simp

lemma dbl_nonneg: "0 \<le> x \<Longrightarrow> 0 \<le> dbl x"
proof -
  assume x: "0 \<le> x"
  have "0 \<le> x / 2 powi (expo x - 52)" using x by simp
  then have "0 \<le> \<lfloor>x / 2 powi (expo x - 52)\<rfloor>" by simp
  with round_even_ge_floor [of "x / 2 powi (expo x - 52)"]
  have "0 \<le> round_even (x / 2 powi (expo x - 52))" by linarith
  then show ?thesis by (simp add: dbl_def Let_def)
qed

lemma dbl_sqrt_ge_100_iff:
  assumes "0 \<le> s"
  shows "(100 \<le> dbl (sqrt s)) = ((100 - 1 / 2 ^ 47)\<^sup>2 \<le> s)"
proof -
  have "(100 \<le> dbl (sqrt s)) = (100 - 1 / 2 ^ 47 \<le> sqrt s)"
    by (rule dbl_ge_100_iff) (use assms in simp)
  also have "\<dots> = (sqrt ((100 - 1 / 2 ^ 47)\<^sup>2) \<le> sqrt s)"
    by (simp only: real_sqrt_abs) simp
  also have "\<dots> = ((100 - 1 / 2 ^ 47)\<^sup>2 \<le> s)"
    by (rule real_sqrt_le_iff)
  finally show ?thesis .
qed

text \<open>
  The product of the double nearest to 2/3 and 3 is 2 - 2^-53, a tie that is rounded up
  to 2: \<open>rand(0, 2)\<close> is 2 although the floor of the exact product is 1.
\<close>

lemma dbl_tie_below_two: "dbl (6004799503160661 / 2 ^ 53 * 3) = 2"
proof -
  have r: "round_even (6004799503160661 / 2 ^ 53 * 3 / 2 powi (0 - 52)) = 2 ^ 53"
    using round_even_tie [of "6004799503160661 / 2 ^ 53 * 3 / 2 powi (0 - 52)" "2 ^ 53 - 1"]
    by (simp add: power_int_minus)
  have "dbl (6004799503160661 / 2 ^ 53 * 3) = of_int (2 ^ 53) * 2 powi (0 - 52)"
    by (rule dbl_eqI [OF _ _ _ _ r]) simp_all
  then show ?thesis by (simp add: power_int_minus)
qed

lemma rand_rounded_product:
  "rand 0 2 (6004799503160661 / 2 ^ 53) = 2 \<and> \<lfloor>6004799503160661 / 2 ^ 53 * (3::real)\<rfloor> = 1"
  using dbl_tie_below_two by (simp add: rand_def Math_floor_def)


section \<open>Basic facts\<close>

lemma calcDistance_explicit:
  "calcDistance a b =
     dbl (sqrt (dbl (dbl ((dbl (pos_x b - pos_x a))\<^sup>2) + dbl ((dbl (pos_y b - pos_y a))\<^sup>2))))"
  by (simp add: calcDistance_def Math_sqrt_def Math_pow_def Let_def)

lemma far_iff:
  "(100 \<le> calcDistance a b) =
   ((100 - 1 / 2 ^ 47)\<^sup>2
      \<le> dbl (dbl ((dbl (pos_x b - pos_x a))\<^sup>2) + dbl ((dbl (pos_y b - pos_y a))\<^sup>2)))"
proof -
  have "0 \<le> dbl ((dbl (pos_x b - pos_x a))\<^sup>2) + dbl ((dbl (pos_y b - pos_y a))\<^sup>2)"
    by (intro add_nonneg_nonneg dbl_nonneg) simp_all
  then have "0 \<le> dbl (dbl ((dbl (pos_x b - pos_x a))\<^sup>2) + dbl ((dbl (pos_y b - pos_y a))\<^sup>2))"
    by (rule dbl_nonneg)
  from dbl_sqrt_ge_100_iff [OF this] show ?thesis by (simp only: calcDistance_explicit)
qed




lemma adjust_fields [simp]:
  "isHovering (adjustLastMousePosition p w) = isHovering w"
  "children (adjustLastMousePosition p w) = children w"
  "timers (adjustLastMousePosition p w) = timers w"
  "nextNode (adjustLastMousePosition p w) = nextNode w"
  "starPosition (last_state (adjustLastMousePosition p w)) = starPosition (last_state w)"
  "starTimestamp (last_state (adjustLastMousePosition p w)) = starTimestamp (last_state w)"
  by (simp_all add: adjustLastMousePosition_def)

lemma createStar_fields [simp]:
  "isHovering (createStar h p w) = isHovering w"
  "last_state (createStar h p w) = last_state w"
  "nextNode (createStar h p w) = Suc (nextNode w)"
  by (simp_all add: createStar_def Let_def removeElement_def appendElement_def)

text \<open>An equation without the square root, for evaluation.\<close>

lemma handleOnMove_code [code]:
  "handleOnMove h e w =
     (if isHovering w then
        (case e of
           None \<Rightarrow> (Some TypeError, w)
         | Some ev \<Rightarrow>
             (let mousePos = \<lparr>pos_x = clientX ev, pos_y = clientY ev\<rparr>;
                  w1 = adjustLastMousePosition mousePos w;
                  a = starPosition (last_state w1);
                  w2 = (if (100 - 1 / 2 ^ 47)\<^sup>2
                             \<le> dbl (dbl ((dbl (pos_x mousePos - pos_x a))\<^sup>2)
                                    + dbl ((dbl (pos_y mousePos - pos_y a))\<^sup>2))
                           \<or> 200 < clock1 h - starTimestamp (last_state w1)
                        then updateLastStar h mousePos (createStar h mousePos w1)
                        else w1)
              in (None, updateLastMousePosition mousePos w2)))
      else (None, w))"
proof -
  have c: "minimumDistanceBetweenStars config = 100" "minimumTimeBetweenStars config = 200"
    by (simp_all add: config_def)
  show ?thesis
    by (simp only: handleOnMove_def c far_iff calcElapsedTime_def Let_def)
qed

lemma handleOnMove_hover:
  assumes "isHovering w"
  shows "handleOnMove h (Some e) w =
     (None, updateLastMousePosition (sample e)
        (if 100 \<le> calcDistance (starPosition (last_state w)) (sample e)
            \<or> 200 < calcElapsedTime (starTimestamp (last_state w)) (clock1 h)
         then updateLastStar h (sample e)
                (createStar h (sample e) (adjustLastMousePosition (sample e) w))
         else adjustLastMousePosition (sample e) w))"
  using assms by (simp add: handleOnMove_def Let_def config_def)

lemma handleOnMove_idle: "\<not> isHovering w \<Longrightarrow> handleOnMove h e w = (None, w)"
  by (simp add: handleOnMove_def)

lemma children_createStar:
  "\<exists>s. children (createStar h p w) = children w @ [s]
     \<and> timers (createStar h p w) = timers w @ [\<lparr>timer_element = s, timer_delay = 3000\<rparr>]
     \<and> style_left s = px (pos_x p) \<and> style_top s = px (pos_y p)"
  by (simp add: createStar_def Let_def removeElement_def appendElement_def)

lemma upd_mouse_fields [simp]:
  "isHovering (updateLastMousePosition p w) = isHovering w"
  "children (updateLastMousePosition p w) = children w"
  "timers (updateLastMousePosition p w) = timers w"
  "nextNode (updateLastMousePosition p w) = nextNode w"
  "starPosition (last_state (updateLastMousePosition p w)) = starPosition (last_state w)"
  "starTimestamp (last_state (updateLastMousePosition p w)) = starTimestamp (last_state w)"
  "mousePosition (last_state (updateLastMousePosition p w)) = p"
  by (simp_all add: updateLastMousePosition_def)

lemma upd_star_fields [simp]:
  "isHovering (updateLastStar h p w) = isHovering w"
  "children (updateLastStar h p w) = children w"
  "timers (updateLastStar h p w) = timers w"
  "nextNode (updateLastStar h p w) = nextNode w"
  "starPosition (last_state (updateLastStar h p w)) = p"
  "starTimestamp (last_state (updateLastStar h p w)) = clock2 h"
  "mousePosition (last_state (updateLastStar h p w)) = mousePosition (last_state w)"
  by (simp_all add: updateLastStar_def)

lemma handleOnMove_children:
  assumes "isHovering w"
  shows "children (snd (handleOnMove h (Some e) w)) =
     (if 100 \<le> calcDistance (starPosition (last_state w)) (sample e)
         \<or> 200 < calcElapsedTime (starTimestamp (last_state w)) (clock1 h)
      then children (createStar h (sample e) (adjustLastMousePosition (sample e) w))
      else children w)"
  by (simp add: handleOnMove_hover [OF assms])

lemma children_createStar_adjust_neq:
  "children (createStar h p (adjustLastMousePosition p w)) \<noteq> children w"
  using children_createStar [of h p "adjustLastMousePosition p w"] by auto

lemma leave_fields [simp]:
  "isHovering (body_onmouseleave w) = isHovering w"
  "children (body_onmouseleave w) = children w"
  "timers (body_onmouseleave w) = timers w"
  "nextNode (body_onmouseleave w) = nextNode w"
  "starPosition (last_state (body_onmouseleave w)) = starPosition (last_state w)"
  "starTimestamp (last_state (body_onmouseleave w)) = starTimestamp (last_state w)"
  "mousePosition (last_state (body_onmouseleave w)) = originPosition"
  by (simp_all add: body_onmouseleave_def)

lemma adjust_sentinel:
  "mousePosition (last_state w) = originPosition \<Longrightarrow>
   adjustLastMousePosition p w = updateLastMousePosition p w"
  by (simp add: adjustLastMousePosition_def updateLastMousePosition_def originPosition_def)

lemma children_createStar_len: "length (children (createStar h p w)) = Suc (length (children w))"
  using children_createStar [of h p w] by auto

lemma upd_mouse_twice:
  "updateLastMousePosition p (updateLastMousePosition m w) = updateLastMousePosition p w"
  by (simp add: updateLastMousePosition_def)

lemma upd_mouse_after_star:
  "updateLastMousePosition p (updateLastStar h q (createStar h q (updateLastMousePosition m w)))
     = updateLastMousePosition p (updateLastStar h q (createStar h q w))"
  by (simp add: updateLastMousePosition_def updateLastStar_def createStar_def Let_def
      removeElement_def appendElement_def)

lemma adjust_cases:
  "adjustLastMousePosition q w = w \<or> adjustLastMousePosition q w = updateLastMousePosition q w"
  by (simp add: adjustLastMousePosition_def updateLastMousePosition_def)

lemma upd_mouse_adjust:
  "updateLastMousePosition p (adjustLastMousePosition q w) = updateLastMousePosition p w"
  using adjust_cases [of q w] by (auto simp add: upd_mouse_twice)

lemma upd_mouse_after_star_adjust:
  "updateLastMousePosition p (updateLastStar h q (createStar h q (adjustLastMousePosition r w)))
     = updateLastMousePosition p (updateLastStar h q (createStar h q w))"
  using adjust_cases [of r w] by (auto simp add: upd_mouse_after_star)

lemma handleOnMove_forgets_pointer:
  assumes "isHovering w"
  shows "handleOnMove h (Some e) w =
     (None, updateLastMousePosition (sample e)
        (if 100 \<le> calcDistance (starPosition (last_state w)) (sample e)
            \<or> 200 < calcElapsedTime (starTimestamp (last_state w)) (clock1 h)
         then updateLastStar h (sample e) (createStar h (sample e) w)
         else w))"
  by (simp add: handleOnMove_hover [OF assms] upd_mouse_adjust upd_mouse_after_star_adjust)

lemma hovering0_facts:
  "isHovering hovering0"
  "starPosition (last_state hovering0) = \<lparr>pos_x = 0, pos_y = 0\<rparr>"
  "starTimestamp (last_state hovering0) = 0"
  "mousePosition (last_state hovering0) = \<lparr>pos_x = 0, pos_y = 0\<rparr>"
  "children hovering0 = []"
  "timers hovering0 = []"
  "nextNode hovering0 = 0"
  by (simp_all add: banner_mouseenter_def init_def originPosition_def)

lemma after_first_star_facts:
  "isHovering after_first_star"
  "starPosition (last_state after_first_star) = \<lparr>pos_x = 500, pos_y = 500\<rparr>"
  "starTimestamp (last_state after_first_star) = 1000"
  "mousePosition (last_state after_first_star) = \<lparr>pos_x = 500, pos_y = 500\<rparr>"
  "length (children after_first_star) = 1"
  by (simp_all add: handleOnMove_forgets_pointer hovering0_facts calcElapsedTime_def far_iff
      children_createStar_len)

section \<open>The claims\<close>







text \<open>
  C3. While \<open>isHovering\<close> is false, a move sample changes nothing: the whole state,
  with \<open>last\<close>, the banner's stars and the timers, is returned as it was and nothing is
  raised, whatever the event holds.
\<close>

theorem not_hovering_drops_sample:
  assumes "\<not> isHovering w"
  shows "handleOnMove h e w = (None, w) \<and>
         window_onmousemove h m w = (None, w) \<and>
         window_ontouchmove h t w = (None, w)"
  using assms by (simp add: window_onmousemove_def window_ontouchmove_def handleOnMove_idle)

theorem not_hovering_drops_sample_witness:
  "\<not> isHovering (init 0) \<and>
   handleOnMove \<lparr>clock1 = 5000, clock2 = 5000, random1 = 0, random2 = 0\<rparr>
     (Some \<lparr>clientX = 10000, clientY = 10000\<rparr>) (init 0) = (None, init 0) \<and>
   window_onmousemove \<lparr>clock1 = 5000, clock2 = 5000, random1 = 0, random2 = 0\<rparr>
     \<lparr>clientX = 10000, clientY = 10000\<rparr> (init 0) = (None, init 0) \<and>
   window_ontouchmove \<lparr>clock1 = 5000, clock2 = 5000, random1 = 0, random2 = 0\<rparr>
     \<lparr>touches = [\<lparr>clientX = 10000, clientY = 10000\<rparr>]\<rparr> (init 0) = (None, init 0)"
proof -
  have idle: "\<not> isHovering (init 0)" by (simp add: init_def)
  show ?thesis
    using not_hovering_drops_sample [OF idle,
        of "\<lparr>clock1 = 5000, clock2 = 5000, random1 = 0, random2 = 0\<rparr>"
           "Some \<lparr>clientX = 10000, clientY = 10000\<rparr>"
           "\<lparr>clientX = 10000, clientY = 10000\<rparr>"
           "\<lparr>touches = [\<lparr>clientX = 10000, clientY = 10000\<rparr>]\<rparr>"] idle
    by simp
qed

text \<open>
  C4. While \<open>isHovering\<close> is true, \<open>last.mousePosition\<close> becomes the sample in every
  case. If no star was appended, \<open>last.starPosition\<close> and \<open>last.starTimestamp\<close> keep
  their values; if one was, they are the sample and the clock reading of
  \<open>updateLastStar\<close>.
\<close>

theorem pointer_always_star_only_on_spawn:
  assumes "isHovering w"
  shows "mousePosition (last_state (snd (handleOnMove h (Some e) w))) = sample e \<and>
    (if children (snd (handleOnMove h (Some e) w)) = children w
     then starPosition (last_state (snd (handleOnMove h (Some e) w))) = starPosition (last_state w)
        \<and> starTimestamp (last_state (snd (handleOnMove h (Some e) w))) = starTimestamp (last_state w)
     else starPosition (last_state (snd (handleOnMove h (Some e) w))) = sample e
        \<and> starTimestamp (last_state (snd (handleOnMove h (Some e) w))) = clock2 h)"
  using children_createStar_adjust_neq [of h "sample e" w]
  by (simp add: handleOnMove_hover [OF assms])

theorem pointer_always_star_only_on_spawn_witness:
  "isHovering hovering0 \<and>
   last_state (snd (handleOnMove \<lparr>clock1 = 50, clock2 = 51, random1 = 0, random2 = 0\<rparr>
                      (Some \<lparr>clientX = 150, clientY = 0\<rparr>) hovering0))
     = \<lparr>starTimestamp = 51, starPosition = \<lparr>pos_x = 150, pos_y = 0\<rparr>,
        mousePosition = \<lparr>pos_x = 150, pos_y = 0\<rparr>\<rparr> \<and>
   last_state (snd (handleOnMove \<lparr>clock1 = 10, clock2 = 11, random1 = 0, random2 = 0\<rparr>
                      (Some \<lparr>clientX = 10, clientY = 0\<rparr>) hovering0))
     = \<lparr>starTimestamp = 0, starPosition = \<lparr>pos_x = 0, pos_y = 0\<rparr>,
        mousePosition = \<lparr>pos_x = 10, pos_y = 0\<rparr>\<rparr>"
proof -
  have hov: "isHovering hovering0" by (simp add: hovering0_facts)
  have spawn: "children (snd (handleOnMove \<lparr>clock1 = 50, clock2 = 51, random1 = 0, random2 = 0\<rparr>
                      (Some \<lparr>clientX = 150, clientY = 0\<rparr>) hovering0)) \<noteq> []"
    using children_createStar_adjust_neq
      [of "\<lparr>clock1 = 50, clock2 = 51, random1 = 0, random2 = 0\<rparr>"
          "\<lparr>pos_x = 150, pos_y = 0\<rparr>" hovering0]
    by (simp add: handleOnMove_children [OF hov] hovering0_facts far_iff power2_eq_square)
  have keep: "children (snd (handleOnMove \<lparr>clock1 = 10, clock2 = 11, random1 = 0, random2 = 0\<rparr>
                      (Some \<lparr>clientX = 10, clientY = 0\<rparr>) hovering0)) = []"
    by (simp add: handleOnMove_children [OF hov] hovering0_facts far_iff power2_eq_square calcElapsedTime_def)
  show ?thesis
    using pointer_always_star_only_on_spawn [OF hov,
        of "\<lparr>clock1 = 50, clock2 = 51, random1 = 0, random2 = 0\<rparr>" "\<lparr>clientX = 150, clientY = 0\<rparr>"]
      pointer_always_star_only_on_spawn [OF hov,
        of "\<lparr>clock1 = 10, clock2 = 11, random1 = 0, random2 = 0\<rparr>" "\<lparr>clientX = 10, clientY = 0\<rparr>"]
    by (simp add: spawn keep hov hovering0_facts throttle.equality)
qed

text \<open>
  C5, as stated, fails: with the pointer inside the banner, a touch move with an empty
  touch list makes \<open>handleOnMove\<close> read \<open>clientX\<close> of \<open>undefined\<close>, which throws.
\<close>

theorem empty_touch_list_throws_when_hovering:
  "fst (window_ontouchmove \<lparr>clock1 = 0, clock2 = 0, random1 = 0, random2 = 0\<rparr>
          \<lparr>touches = []\<rparr> hovering0) = Some TypeError"
  by (simp add: window_ontouchmove_def handleOnMove_def banner_mouseenter_def init_def)

text \<open>
  C5, amended. A touch move with an empty touch list never changes the state and never
  creates a star. It is dropped without a fault while \<open>isHovering\<close> is false, and raises a
  \<open>TypeError\<close> while \<open>isHovering\<close> is true.
\<close>

theorem empty_touch_list:
  assumes "touches e = []"
  shows "window_ontouchmove h e w = (if isHovering w then Some TypeError else None, w)"
  using assms by (simp add: window_ontouchmove_def handleOnMove_def)

theorem empty_touch_list_witness:
  "touches \<lparr>touches = []\<rparr> = [] \<and>
   window_ontouchmove \<lparr>clock1 = 0, clock2 = 0, random1 = 0, random2 = 0\<rparr> \<lparr>touches = []\<rparr> (init 0)
     = (None, init 0) \<and>
   window_ontouchmove \<lparr>clock1 = 0, clock2 = 0, random1 = 0, random2 = 0\<rparr> \<lparr>touches = []\<rparr>
       after_first_star
     = (Some TypeError, after_first_star)"
proof -
  have e: "touches \<lparr>touches = []\<rparr> = []" by simp
  show ?thesis
    using empty_touch_list [OF e, of "\<lparr>clock1 = 0, clock2 = 0, random1 = 0, random2 = 0\<rparr>" "init 0"]
      empty_touch_list [OF e, of "\<lparr>clock1 = 0, clock2 = 0, random1 = 0, random2 = 0\<rparr>"
        after_first_star]
    by (simp add: after_first_star_facts) (simp add: init_def)
qed

text \<open>
  C6, as stated, fails: \<open>updateLastStar\<close> reads the clock again. With 1000 read at
  line 97 and 1001 read at line 78, a star spawns and the stored timestamp is 1001, not
  the 1000 that the elapsed-time check used.
\<close>

theorem spawn_timestamp_differs_from_now:
  "clock1 \<lparr>clock1 = 1000, clock2 = 1001, random1 = 0, random2 = 0\<rparr> = 1000 \<and>
   length (children (snd (handleOnMove \<lparr>clock1 = 1000, clock2 = 1001, random1 = 0, random2 = 0\<rparr>
                    (Some \<lparr>clientX = 150, clientY = 0\<rparr>) hovering0))) = 1 \<and>
   starTimestamp (last_state (snd (handleOnMove
                    \<lparr>clock1 = 1000, clock2 = 1001, random1 = 0, random2 = 0\<rparr>
                    (Some \<lparr>clientX = 150, clientY = 0\<rparr>) hovering0))) = 1001"
  by (simp add: handleOnMove_forgets_pointer hovering0_facts far_iff power2_eq_square children_createStar_len)

text \<open>
  C6, amended. On every spawn \<open>last.starPosition\<close> is the sample and
  \<open>last.starTimestamp\<close> is the second clock reading, taken by \<open>updateLastStar\<close> after
  the star has been created. It equals the \<open>now\<close> of the elapsed-time check exactly when
  the two readings are equal, and is not before it when the clock does not go back.
\<close>

theorem spawn_stores_second_clock_reading:
  assumes "isHovering w"
    and "children (snd (handleOnMove h (Some e) w)) \<noteq> children w"
  shows "starTimestamp (last_state (snd (handleOnMove h (Some e) w))) = clock2 h \<and>
         starPosition (last_state (snd (handleOnMove h (Some e) w))) = sample e \<and>
         (starTimestamp (last_state (snd (handleOnMove h (Some e) w))) = clock1 h
            \<longleftrightarrow> clock2 h = clock1 h) \<and>
         (clock1 h \<le> clock2 h \<longrightarrow>
            clock1 h \<le> starTimestamp (last_state (snd (handleOnMove h (Some e) w))))"
  using assms(2) by (auto simp add: handleOnMove_hover [OF assms(1)] split: if_splits)

theorem spawn_stores_second_clock_reading_witness:
  "isHovering hovering0 \<and>
   children (snd (handleOnMove \<lparr>clock1 = 50, clock2 = 53, random1 = 0, random2 = 0\<rparr>
                    (Some \<lparr>clientX = 0, clientY = 100\<rparr>) hovering0)) \<noteq> children hovering0 \<and>
   last_state (snd (handleOnMove \<lparr>clock1 = 50, clock2 = 53, random1 = 0, random2 = 0\<rparr>
                    (Some \<lparr>clientX = 0, clientY = 100\<rparr>) hovering0))
     = \<lparr>starTimestamp = 53, starPosition = \<lparr>pos_x = 0, pos_y = 100\<rparr>,
        mousePosition = \<lparr>pos_x = 0, pos_y = 100\<rparr>\<rparr>"
proof -
  have hov: "isHovering hovering0" by (simp add: hovering0_facts)
  have spawn: "children (snd (handleOnMove \<lparr>clock1 = 50, clock2 = 53, random1 = 0, random2 = 0\<rparr>
                      (Some \<lparr>clientX = 0, clientY = 100\<rparr>) hovering0)) \<noteq> children hovering0"
    using children_createStar_adjust_neq
      [of "\<lparr>clock1 = 50, clock2 = 53, random1 = 0, random2 = 0\<rparr>"
          "\<lparr>pos_x = 0, pos_y = 100\<rparr>" hovering0]
    by (simp add: handleOnMove_children [OF hov] hovering0_facts far_iff power2_eq_square)
  have m: "mousePosition (last_state (snd (handleOnMove
              \<lparr>clock1 = 50, clock2 = 53, random1 = 0, random2 = 0\<rparr>
              (Some \<lparr>clientX = 0, clientY = 100\<rparr>) hovering0))) = \<lparr>pos_x = 0, pos_y = 100\<rparr>"
    by (simp add: handleOnMove_forgets_pointer [OF hov])
  show ?thesis
    using spawn_stores_second_clock_reading [OF hov spawn] spawn hov m
    by (simp add: throttle.equality)
qed

text \<open>
  C7, as stated, fails: once the star is no longer a child of the banner (here the
  banner has been emptied), the callback's \<open>banner.removeChild\<close> throws.
\<close>

theorem removal_of_detached_star_throws:
  "fst (fire (last (timers (createStar \<lparr>clock1 = 0, clock2 = 0, random1 = 0, random2 = 0\<rparr>
                               \<lparr>pos_x = 150, pos_y = 0\<rparr> hovering0)))
          ((createStar \<lparr>clock1 = 0, clock2 = 0, random1 = 0, random2 = 0\<rparr>
               \<lparr>pos_x = 150, pos_y = 0\<rparr> hovering0)\<lparr>children := []\<rparr>))
     = Some NotFoundError"
  by (simp add: fire_def removeChild_def createStar_def Let_def removeElement_def appendElement_def)

text \<open>
  C7, amended. \<open>createStar\<close> registers one timer of 3000 ms for the star it has
  appended. When that timer fires, the star is detached without error if it is still a
  child of the banner (whether or not the banner itself is still in the document);
  otherwise \<open>removeChild\<close> raises \<open>NotFoundError\<close> and the banner's children are left as
  they are.
\<close>

theorem scheduled_removal:
  assumes "timers (createStar h p w) = timers w @ [t]"
  shows "timer_delay t = 3000 \<and>
         timer_element t \<in> set (children (createStar h p w)) \<and>
         fire t v =
           (if timer_element t \<in> set (children v)
            then (None, v\<lparr>timers := remove1 t (timers v),
                           children := remove1 (timer_element t) (children v)\<rparr>)
            else (Some NotFoundError, v\<lparr>timers := remove1 t (timers v)\<rparr>))"
proof -
  from assms have "timer_delay t = 3000"
    and "timer_element t \<in> set (children (createStar h p w))"
    by (auto simp add: createStar_def Let_def removeElement_def appendElement_def)
  moreover have "fire t v =
           (if timer_element t \<in> set (children v)
            then (None, v\<lparr>timers := remove1 t (timers v),
                           children := remove1 (timer_element t) (children v)\<rparr>)
            else (Some NotFoundError, v\<lparr>timers := remove1 t (timers v)\<rparr>))"
    by (simp add: fire_def removeChild_def)
  ultimately show ?thesis by simp
qed

theorem scheduled_removal_witness:
  "timers (createStar \<lparr>clock1 = 0, clock2 = 0, random1 = 0, random2 = 0\<rparr>
             \<lparr>pos_x = 150, pos_y = 0\<rparr> hovering0)
     = timers hovering0 @
       [last (timers (createStar \<lparr>clock1 = 0, clock2 = 0, random1 = 0, random2 = 0\<rparr>
                        \<lparr>pos_x = 150, pos_y = 0\<rparr> hovering0))] \<and>
   fst (fire (last (timers (createStar \<lparr>clock1 = 0, clock2 = 0, random1 = 0, random2 = 0\<rparr>
                              \<lparr>pos_x = 150, pos_y = 0\<rparr> hovering0)))
          (createStar \<lparr>clock1 = 0, clock2 = 0, random1 = 0, random2 = 0\<rparr>
             \<lparr>pos_x = 150, pos_y = 0\<rparr> hovering0)) = None \<and>
   children (snd (fire (last (timers (createStar \<lparr>clock1 = 0, clock2 = 0, random1 = 0, random2 = 0\<rparr>
                              \<lparr>pos_x = 150, pos_y = 0\<rparr> hovering0)))
          (createStar \<lparr>clock1 = 0, clock2 = 0, random1 = 0, random2 = 0\<rparr>
             \<lparr>pos_x = 150, pos_y = 0\<rparr> hovering0))) = []"
proof -
  let ?h = "\<lparr>clock1 = 0, clock2 = 0, random1 = 0, random2 = 0\<rparr>"
  let ?p = "\<lparr>pos_x = 150, pos_y = 0\<rparr>"
  have t: "timers (createStar ?h ?p hovering0)
     = timers hovering0 @ [last (timers (createStar ?h ?p hovering0))]"
    by (simp add: createStar_def Let_def removeElement_def appendElement_def)
  have c: "children (createStar ?h ?p hovering0)
     = [timer_element (last (timers (createStar ?h ?p hovering0)))]"
    by (simp add: createStar_def Let_def removeElement_def appendElement_def hovering0_facts)
  show ?thesis
    using scheduled_removal [OF t, of "createStar ?h ?p hovering0"] t
    by (simp add: c)
qed

text \<open>
  C8. \<open>document.body.onmouseleave\<close> sets \<open>last.mousePosition\<close> to the origin (0, 0)
  and leaves \<open>last.starPosition\<close>, \<open>last.starTimestamp\<close>, the flag, the banner and the
  timers unchanged, in every state.
\<close>

theorem document_leave_resets_pointer_only:
  "mousePosition (last_state (body_onmouseleave w)) = \<lparr>pos_x = 0, pos_y = 0\<rparr> \<and>
   starPosition (last_state (body_onmouseleave w)) = starPosition (last_state w) \<and>
   starTimestamp (last_state (body_onmouseleave w)) = starTimestamp (last_state w) \<and>
   isHovering (body_onmouseleave w) = isHovering w \<and>
   children (body_onmouseleave w) = children w \<and>
   timers (body_onmouseleave w) = timers w"
  by (simp add: originPosition_def)

text \<open>
  C9. While \<open>isHovering\<close> is true, two runs of the handler on the same sample, with
  the same clock readings and random draws, from states that differ only in
  \<open>last.mousePosition\<close> give the same result: the same stars, the same timers and the same
  \<open>last\<close>.
\<close>

theorem pointer_position_never_read:
  assumes "isHovering w"
  shows "handleOnMove h (Some e) (w\<lparr>last_state := (last_state w)\<lparr>mousePosition := m1\<rparr>\<rparr>) =
         handleOnMove h (Some e) (w\<lparr>last_state := (last_state w)\<lparr>mousePosition := m2\<rparr>\<rparr>)"
proof -
  have eq: "\<And>m. w\<lparr>last_state := (last_state w)\<lparr>mousePosition := m\<rparr>\<rparr> = updateLastMousePosition m w"
    by (simp add: updateLastMousePosition_def)
  have hov: "\<And>m. isHovering (updateLastMousePosition m w)" using assms by simp
  have "\<And>m. handleOnMove h (Some e) (updateLastMousePosition m w) = handleOnMove h (Some e) w"
    by (simp add: handleOnMove_forgets_pointer [OF hov] handleOnMove_forgets_pointer [OF assms]
        upd_mouse_twice upd_mouse_after_star)
  then show ?thesis by (simp add: eq)
qed

theorem pointer_position_never_read_witness:
  "isHovering hovering0 \<and>
   handleOnMove \<lparr>clock1 = 50, clock2 = 51, random1 = 0, random2 = 0\<rparr>
       (Some \<lparr>clientX = 150, clientY = 0\<rparr>)
       (hovering0\<lparr>last_state := (last_state hovering0)\<lparr>mousePosition := \<lparr>pos_x = 0, pos_y = 0\<rparr>\<rparr>\<rparr>) =
   handleOnMove \<lparr>clock1 = 50, clock2 = 51, random1 = 0, random2 = 0\<rparr>
       (Some \<lparr>clientX = 150, clientY = 0\<rparr>)
       (hovering0\<lparr>last_state := (last_state hovering0)\<lparr>mousePosition := \<lparr>pos_x = 7, pos_y = 9\<rparr>\<rparr>\<rparr>)"
proof -
  have hov: "isHovering hovering0" by (simp add: banner_mouseenter_def)
  show ?thesis
    using pointer_position_never_read [OF hov, of "\<lparr>clock1 = 50, clock2 = 51, random1 = 0, random2 = 0\<rparr>"
      "\<lparr>clientX = 150, clientY = 0\<rparr>" "\<lparr>pos_x = 0, pos_y = 0\<rparr>" "\<lparr>pos_x = 7, pos_y = 9\<rparr>"] hov
    by simp
qed

text \<open>
  C10. A sample at exactly (0, 0) leaves \<open>last.mousePosition\<close> equal to the origin: the
  state is the one a reset would give, and on the next sample
  \<open>adjustLastMousePosition\<close> takes its branch and overwrites the position.
\<close>

theorem origin_sample_looks_unset:
  assumes "isHovering w" and "clientX e = 0" and "clientY e = 0"
  shows "mousePosition (last_state (snd (handleOnMove h (Some e) w))) = originPosition \<and>
         body_onmouseleave (snd (handleOnMove h (Some e) w)) = snd (handleOnMove h (Some e) w) \<and>
         adjustLastMousePosition q (snd (handleOnMove h (Some e) w))
           = updateLastMousePosition q (snd (handleOnMove h (Some e) w)) \<and>
         mousePosition (last_state
            (adjustLastMousePosition q (snd (handleOnMove h (Some e) w)))) = q"
proof -
  let ?w' = "snd (handleOnMove h (Some e) w)"
  have m: "mousePosition (last_state ?w') = originPosition"
    using assms by (simp add: handleOnMove_hover originPosition_def)
  have "updateLastMousePosition originPosition ?w' = ?w'"
    using assms(2,3)
    by (simp add: handleOnMove_hover [OF assms(1)] updateLastMousePosition_def originPosition_def)
  then have l: "body_onmouseleave ?w' = ?w'" by (simp add: body_onmouseleave_def)
  from m l show ?thesis by (simp add: adjust_sentinel)
qed

theorem origin_sample_looks_unset_witness:
  "isHovering after_first_star \<and>
   clientX \<lparr>clientX = 0, clientY = 0\<rparr> = 0 \<and> clientY \<lparr>clientX = 0, clientY = 0\<rparr> = 0 \<and>
   mousePosition (last_state (snd (handleOnMove
       \<lparr>clock1 = 1010, clock2 = 1011, random1 = 0, random2 = 0\<rparr>
       (Some \<lparr>clientX = 0, clientY = 0\<rparr>) after_first_star))) = \<lparr>pos_x = 0, pos_y = 0\<rparr> \<and>
   mousePosition (last_state (adjustLastMousePosition \<lparr>pos_x = 3, pos_y = 4\<rparr>
       (snd (handleOnMove \<lparr>clock1 = 1010, clock2 = 1011, random1 = 0, random2 = 0\<rparr>
          (Some \<lparr>clientX = 0, clientY = 0\<rparr>) after_first_star)))) = \<lparr>pos_x = 3, pos_y = 4\<rparr>"
proof -
  have hov: "isHovering after_first_star" by (simp add: after_first_star_facts)
  have x: "clientX \<lparr>clientX = 0, clientY = 0\<rparr> = 0" and y: "clientY \<lparr>clientX = 0, clientY = 0\<rparr> = 0"
    by simp_all
  show ?thesis
    using origin_sample_looks_unset [OF hov x y,
        of "\<lparr>clock1 = 1010, clock2 = 1011, random1 = 0, random2 = 0\<rparr>" "\<lparr>pos_x = 3, pos_y = 4\<rparr>"] hov
    by (simp add: originPosition_def)
qed

end
